theory Spec2Isabelle
  imports Main
begin

section \<open>Strings\<close>

text \<open>
  A JavaScript string is a sequence of UTF-16 code units and \<open>length\<close>, \<open>substring\<close>
  and \<open>trim\<close> count code units. A \<open>string\<close> here holds one \<open>char\<close> per code unit,
  for the code units below 256.
\<close>

definition is_whitespace :: "char \<Rightarrow> bool" where
  \<comment> \<open>The white space and line terminators that \<open>String.prototype.trim\<close> strips, below 256:
      TAB, LF, VT, FF, CR, SP and NBSP.\<close>
  "is_whitespace c = (of_char c \<in> {9, 10, 11, 12, 13, 32, 160 :: nat})"

definition trim :: "string \<Rightarrow> string" where
  "trim s = rev (dropWhile is_whitespace (rev (dropWhile is_whitespace s)))"

definition substring :: "nat \<Rightarrow> nat \<Rightarrow> string \<Rightarrow> string" where
  \<comment> \<open>\<open>s.substring(i, j)\<close>: both indices are clamped to the length and swapped when \<open>i > j\<close>.\<close>
  "substring i j s =
     (let a = min i (length s); b = min j (length s)
      in take (max a b - min a b) (drop (min a b) s))"

section \<open>Data model\<close>

datatype Role = User | Assistant

record Message =
  role :: Role
  content :: string

record Conversation =
  id_conv :: string
  title :: string
  messages :: "Message list"
  model :: string
  timestamp :: nat

record ServerSettings =
  host :: string
  port :: string

text \<open>The state of \<open>EnhancedChatInterface\<close>: one field per \<open>useState\<close> cell.\<close>

record chat_state =
  currentConversation :: Conversation
  conversations :: "Conversation list"
  input :: string
  isLoading :: bool
  models :: "string list"
  isDarkMode :: bool
  isMobileMenuOpen :: bool
  isSidebarOpen :: bool
  isSettingsOpen :: bool
  serverSettings :: ServerSettings
  tempSettings :: ServerSettings

text \<open>The state of the minimal \<open>ChatInterface\<close>.\<close>

record min_state =
  messages_min :: "Message list"
  input_min :: string
  isLoading_min :: bool
  models_min :: "string list"
  selectedModel :: string

section \<open>The completion request and its outcome\<close>

record chat_request =
  req_method :: string
  req_url :: string
  req_content_type :: string
  body_model :: string
  body_messages :: "Message list"

text \<open>
  What the two \<open>await\<close>s of \<open>handleSendMessage\<close> give back. \<open>Rejected\<close>: \<open>fetch\<close> or
  \<open>response.json()\<close> rejected, control goes to the \<open>catch\<close> block. \<open>Resolved c\<close>: the body
  parsed as JSON and \<open>c\<close> is what \<open>data?.choices?.[0]?.message?.content\<close> evaluates to:
  \<open>Some t\<close> for a string \<open>t\<close> (the type of a message's content), \<open>None\<close> when the chain
  gives \<open>undefined\<close> or \<open>null\<close>.
\<close>

datatype fetch_result = Rejected | Resolved "string option"

definition aiResponse :: "string option \<Rightarrow> string" where
  \<comment> \<open>\<open>c || "No response from AI"\<close>: \<open>undefined\<close>, \<open>null\<close> and the empty string are falsy.\<close>
  "aiResponse c =
     (case c of
        None \<Rightarrow> ''No response from AI''
      | Some t \<Rightarrow> if t = [] then ''No response from AI'' else t)"

definition completions_url :: "string \<Rightarrow> string \<Rightarrow> string" where
  "completions_url h p = ''http://'' @ h @ '':'' @ p @ ''/v1/chat/completions''"

section \<open>The enhanced variant\<close>

definition generateId :: "string \<Rightarrow> string" where
  \<comment> \<open>\<open>Math.random().toString(36).substring(2, 15)\<close>; the argument is the base-36 rendering
      of the random number drawn, such as \<open>0.4fzyo82mvyr\<close>.\<close>
  "generateId r = substring 2 15 r"

definition initial_state :: "string \<Rightarrow> nat \<Rightarrow> chat_state" where
  \<comment> \<open>The \<open>useState\<close> initialisers; \<open>r\<close> is the random draw, \<open>now\<close> is \<open>Date.now()\<close>.\<close>
  "initial_state r now =
     \<lparr> currentConversation =
         \<lparr> id_conv = generateId r, title = ''New Conversation'', messages = [],
           model = [], timestamp = now \<rparr>,
       conversations = [],
       input = [],
       isLoading = False,
       models = [],
       isDarkMode = False,
       isMobileMenuOpen = False,
       isSidebarOpen = False,
       isSettingsOpen = False,
       serverSettings = \<lparr> host = ''localhost'', port = ''1234'' \<rparr>,
       tempSettings = \<lparr> host = ''localhost'', port = ''1234'' \<rparr> \<rparr>"

definition startNewChat :: "string \<Rightarrow> nat \<Rightarrow> chat_state \<Rightarrow> chat_state" where
  "startNewChat r now s =
     (let newConversation =
            \<lparr> id_conv = generateId r, title = ''New Conversation'', messages = [],
              model = model (currentConversation s), timestamp = now \<rparr>
      in s\<lparr> currentConversation := newConversation,
            conversations := newConversation # conversations s,
            input := [],
            isMobileMenuOpen := False,
            isSidebarOpen := False \<rparr>)"

definition switchConversation :: "string \<Rightarrow> chat_state \<Rightarrow> chat_state" where
  "switchConversation i s =
     (case find (\<lambda>c. id_conv c = i) (conversations s) of
        Some conversation \<Rightarrow> s\<lparr> currentConversation := conversation, isSidebarOpen := False \<rparr>
      | None \<Rightarrow> s)"

text \<open>
  A handler is a closure over the render it was created in. \<open>snap\<close> is that render's state:
  the handler reads \<open>currentConversation\<close>, \<open>input\<close> and \<open>serverSettings\<close> from it. \<open>s\<close>
  is the state the setters act on: \<open>setCurrentConversation(v)\<close> overwrites the cell, and
  \<open>setConversations((prev) => ...)\<close> maps over the list as it is then.
\<close>

definition updateConversationTitle :: "chat_state \<Rightarrow> Message list \<Rightarrow> chat_state \<Rightarrow> chat_state" where
  "updateConversationTitle snap msgs s =
     (if length msgs = 2 \<and> title (currentConversation snap) = ''New Conversation'' then
        let userMessage = content (msgs ! 0);
            title' = (if length userMessage > 30 then substring 0 30 userMessage @ ''...''
                      else userMessage);
            updatedConversation = (currentConversation snap)\<lparr> title := title' \<rparr>
        in s\<lparr> currentConversation := updatedConversation,
              conversations :=
                map (\<lambda>c. if id_conv c = id_conv (currentConversation snap)
                         then updatedConversation else c) (conversations s) \<rparr>
      else s)"

definition handleModelChange :: "string \<Rightarrow> chat_state \<Rightarrow> chat_state" where
  "handleModelChange m s =
     (let updatedConversation = (currentConversation s)\<lparr> model := m \<rparr>
      in s\<lparr> currentConversation := updatedConversation,
            conversations :=
              map (\<lambda>c. if id_conv c = id_conv (currentConversation s)
                       then updatedConversation else c) (conversations s) \<rparr>)"

definition setInput :: "string \<Rightarrow> chat_state \<Rightarrow> chat_state" where
  "setInput v s = s\<lparr> input := v \<rparr>"

definition handleSendMessage_begin :: "nat \<Rightarrow> chat_state \<Rightarrow> chat_state \<times> chat_request option" where
  \<comment> \<open>\<open>handleSendMessage\<close> up to the \<open>await fetch(...)\<close>: the state it leaves and the request
      it issues, if any. \<open>now\<close> is \<open>Date.now()\<close>.\<close>
  "handleSendMessage_begin now s =
     (if trim (input s) = [] \<or> model (currentConversation s) = [] then (s, None)
      else
        let userMessage = input s;
            newMessages = messages (currentConversation s) @ [\<lparr> role = User, content = userMessage \<rparr>];
            updatedConversation =
              (currentConversation s)\<lparr> messages := newMessages, timestamp := now \<rparr>
        in (s\<lparr> currentConversation := updatedConversation,
               conversations :=
                 map (\<lambda>c. if id_conv c = id_conv (currentConversation s)
                          then updatedConversation else c) (conversations s),
               input := [],
               isLoading := True \<rparr>,
            Some \<lparr> req_method = ''POST'',
                   req_url = completions_url (host (serverSettings s)) (port (serverSettings s)),
                   req_content_type = ''application/json'',
                   body_model = model (currentConversation s),
                   body_messages = [\<lparr> role = User, content = userMessage \<rparr>] \<rparr>))"

definition handleSendMessage_finish :: "chat_state \<Rightarrow> nat \<Rightarrow> fetch_result \<Rightarrow> chat_state \<Rightarrow> chat_state" where
  \<comment> \<open>\<open>handleSendMessage\<close> from the point where the request has settled: the \<open>try\<close> block's
      tail or the \<open>catch\<close> block, then \<open>finally\<close>. \<open>snap\<close> is the state the handler was
      called in, \<open>s\<close> the state when the request settles.\<close>
  "handleSendMessage_finish snap now res s =
     (let newMessages =
            messages (currentConversation snap) @ [\<lparr> role = User, content = input snap \<rparr>]
      in case res of
           Resolved c \<Rightarrow>
             (let finalMessages = newMessages @ [\<lparr> role = Assistant, content = aiResponse c \<rparr>];
                  finalConversation =
                    (currentConversation snap)\<lparr> messages := finalMessages, timestamp := now \<rparr>;
                  s1 = s\<lparr> currentConversation := finalConversation,
                         conversations :=
                           map (\<lambda>c. if id_conv c = id_conv (currentConversation snap)
                                    then finalConversation else c) (conversations s) \<rparr>;
                  s2 = updateConversationTitle snap finalMessages s1
              in s2\<lparr> isLoading := False \<rparr>)
         | Rejected \<Rightarrow>
             (let errorMessages =
                    newMessages @
                    [\<lparr> role = Assistant,
                       content = ''Sorry, there was an error processing your request.'' \<rparr>];
                  errorConversation =
                    (currentConversation snap)\<lparr> messages := errorMessages, timestamp := now \<rparr>
              in s\<lparr> currentConversation := errorConversation,
                    conversations :=
                      map (\<lambda>c. if id_conv c = id_conv (currentConversation snap)
                               then errorConversation else c) (conversations s),
                    isLoading := False \<rparr>))"

definition handleSendMessage_reply :: "chat_state \<Rightarrow> nat \<Rightarrow> string option \<Rightarrow> chat_state \<Rightarrow> chat_state" where
  \<comment> \<open>The part of the \<open>try\<close> block from \<open>const aiResponse\<close> to the second setter: the
      assistant message is appended and the conversation stored, before
      \<open>updateConversationTitle\<close> is called (\<open>finish_is_reply_then_retitle\<close>).\<close>
  "handleSendMessage_reply snap now answer s =
     (let newMessages =
            messages (currentConversation snap) @ [\<lparr> role = User, content = input snap \<rparr>];
          finalMessages = newMessages @ [\<lparr> role = Assistant, content = aiResponse answer \<rparr>];
          finalConversation =
            (currentConversation snap)\<lparr> messages := finalMessages, timestamp := now \<rparr>
      in s\<lparr> currentConversation := finalConversation,
            conversations :=
              map (\<lambda>c. if id_conv c = id_conv (currentConversation snap)
                       then finalConversation else c) (conversations s) \<rparr>)"

definition handleSendMessage ::
    "nat \<Rightarrow> nat \<Rightarrow> (chat_request \<Rightarrow> fetch_result) \<Rightarrow> chat_state \<Rightarrow> chat_state" where
  \<comment> \<open>One whole send with no other event in between; \<open>server\<close> answers the request.\<close>
  "handleSendMessage now1 now2 server s =
     (case handleSendMessage_begin now1 s of
        (s', None) \<Rightarrow> s'
      | (s', Some req) \<Rightarrow> handleSendMessage_finish s now2 (server req) s')"

fun startNewChats :: "(string \<times> nat) list \<Rightarrow> chat_state \<Rightarrow> chat_state" where
  \<comment> \<open>A run of "new chat" actions, oldest first; each comes with its random draw and its
      \<open>Date.now()\<close>.\<close>
  "startNewChats [] s = s"
| "startNewChats ((r, now) # rest) s = startNewChats rest (startNewChat r now s)"

section \<open>Settings and persistence\<close>

text \<open>
  \<open>localStorage\<close> maps keys to strings. \<open>JSON.stringify\<close> and \<open>JSON.parse\<close> belong to the
  platform, so the functions below take them as arguments: \<open>stringify\<close> renders a value
  of the state as text, \<open>parse\<close> gives \<open>None\<close> where \<open>JSON.parse\<close> throws and otherwise
  the value read, which the state's types take to be of the shape stored.
\<close>

type_synonym storage = "string \<rightharpoonup> string"

definition loadConversations ::
    "(string \<Rightarrow> Conversation list option) \<Rightarrow> storage \<Rightarrow> chat_state \<Rightarrow> chat_state" where
  "loadConversations parse ls s =
     (case ls ''conversations'' of
        None \<Rightarrow> s
      | Some savedConversations \<Rightarrow>
          if savedConversations = [] then s
          else (case parse savedConversations of
                  None \<Rightarrow> s
                | Some parsed \<Rightarrow>
                    if length parsed > 0
                    then s\<lparr> conversations := parsed, currentConversation := parsed ! 0 \<rparr>
                    else s\<lparr> conversations := parsed \<rparr>))"

definition loadSettings ::
    "(string \<Rightarrow> ServerSettings option) \<Rightarrow> storage \<Rightarrow> chat_state \<Rightarrow> chat_state" where
  "loadSettings parse ls s =
     (case ls ''serverSettings'' of
        None \<Rightarrow> s
      | Some savedSettings \<Rightarrow>
          if savedSettings = [] then s
          else (case parse savedSettings of
                  None \<Rightarrow> s
                | Some parsed \<Rightarrow> s\<lparr> serverSettings := parsed, tempSettings := parsed \<rparr>))"

definition initialize ::
    "bool \<Rightarrow> (string \<Rightarrow> Conversation list option) \<Rightarrow> (string \<Rightarrow> ServerSettings option) \<Rightarrow>
     storage \<Rightarrow> chat_state \<Rightarrow> chat_state" where
  \<comment> \<open>The mount effect "Initialize from localStorage"; \<open>prefersDark\<close> is the media query.\<close>
  "initialize prefersDark parseC parseS ls s =
     loadSettings parseS ls
       (loadConversations parseC ls (if prefersDark then s\<lparr> isDarkMode := True \<rparr> else s))"

definition saveConversationsEffect ::
    "(Conversation list \<Rightarrow> string) \<Rightarrow> chat_state \<Rightarrow> storage \<Rightarrow> storage" where
  "saveConversationsEffect stringify s ls = ls(''conversations'' \<mapsto> stringify (conversations s))"

definition saveSettingsEffect ::
    "(ServerSettings \<Rightarrow> string) \<Rightarrow> chat_state \<Rightarrow> storage \<Rightarrow> storage" where
  "saveSettingsEffect stringify s ls = ls(''serverSettings'' \<mapsto> stringify (serverSettings s))"

definition models_url :: "string \<Rightarrow> string \<Rightarrow> string" where
  "models_url h p = ''http://'' @ h @ '':'' @ p @ ''/v1/models''"

definition fetchModels :: "chat_state \<Rightarrow> string" where
  \<comment> \<open>The URL of the GET that \<open>fetchModels\<close> issues. It reads \<open>serverSettings\<close> from the
      render \<open>snap\<close> it was created in.\<close>
  "fetchModels snap = models_url (host (serverSettings snap)) (port (serverSettings snap))"

definition fetchModels_settled :: "string list option \<Rightarrow> chat_state \<Rightarrow> chat_state" where
  \<comment> \<open>The request of \<open>fetchModels\<close> has settled: \<open>Some modelIds\<close> when the body parsed
      and \<open>data.data.map((item) => item.id)\<close> gave \<open>modelIds\<close>, \<open>None\<close> when the chain
      ended in its \<open>catch\<close>, which only logs.\<close>
  "fetchModels_settled res s = (case res of Some modelIds \<Rightarrow> s\<lparr> models := modelIds \<rparr> | None \<Rightarrow> s)"

definition settings_loaded :: "(string \<Rightarrow> ServerSettings option) \<Rightarrow> storage \<Rightarrow> bool" where
  \<comment> \<open>Whether the initialisation calls \<open>setServerSettings(parsed)\<close>. It then stores a new
      object, so the effects that depend on \<open>serverSettings\<close> run again in the next render,
      also when the values read are the defaults.\<close>
  "settings_loaded parse ls =
     (case ls ''serverSettings'' of
        None \<Rightarrow> False
      | Some savedSettings \<Rightarrow> savedSettings \<noteq> [] \<and> parse savedSettings \<noteq> None)"

definition page_load ::
    "bool \<Rightarrow> (Conversation list \<Rightarrow> string) \<Rightarrow> (string \<Rightarrow> Conversation list option) \<Rightarrow>
     (ServerSettings \<Rightarrow> string) \<Rightarrow> (string \<Rightarrow> ServerSettings option) \<Rightarrow>
     string \<Rightarrow> nat \<Rightarrow> storage \<Rightarrow> chat_state \<times> storage \<times> string list" where
  \<comment> \<open>Mounting the component: the state, the storage and the model-list requests issued,
      in order. The effects run in source order on the first render: the initialisation
      reads the storage, the two saving effects write the first render's values, and the
      fetching effect calls the first render's \<open>fetchModels\<close>. The render that follows the
      initialisation runs the saving effects again (when nothing was loaded they would
      write what is already there) and, when the settings were loaded, the fetching
      effect with that render's \<open>fetchModels\<close>.\<close>
  "page_load prefersDark stringifyC parseC stringifyS parseS r now ls =
     (let s0 = initial_state r now;
          s1 = initialize prefersDark parseC parseS ls s0;
          ls1 = saveSettingsEffect stringifyS s0 (saveConversationsEffect stringifyC s0 ls);
          ls2 = saveSettingsEffect stringifyS s1 (saveConversationsEffect stringifyC s1 ls1);
          requests = fetchModels s0 # (if settings_loaded parseS ls then [fetchModels s1] else [])
      in (s1, ls2, requests))"

definition setTempHost :: "string \<Rightarrow> chat_state \<Rightarrow> chat_state" where
  "setTempHost v s = s\<lparr> tempSettings := (tempSettings s)\<lparr> host := v \<rparr> \<rparr>"

definition setTempPort :: "string \<Rightarrow> chat_state \<Rightarrow> chat_state" where
  "setTempPort v s = s\<lparr> tempSettings := (tempSettings s)\<lparr> port := v \<rparr> \<rparr>"

definition saveSettings :: "chat_state \<Rightarrow> chat_state \<times> string" where
  \<comment> \<open>The state after the two setters, and the request of the \<open>fetchModels()\<close> call that
      ends the handler: it is the \<open>fetchModels\<close> of the render the handler was created in.
      The render that follows runs the effects that depend on \<open>serverSettings\<close>:
      \<open>saveSettingsEffect\<close> and \<open>fetchModels\<close> on the new state.\<close>
  "saveSettings s =
     (s\<lparr> serverSettings := tempSettings s, isSettingsOpen := False \<rparr>, fetchModels s)"

text \<open>
  A concrete pair of functions for the settings entry: the compact text that
  \<open>JSON.stringify\<close> gives for host and port values that need no escaping, and a reader of
  that text.
\<close>

definition settings_text :: "ServerSettings \<Rightarrow> string" where
  "settings_text st =
     [CHR ''{'', CHR 0x22] @ ''host'' @ [CHR 0x22, CHR '':'', CHR 0x22] @ host st @
     [CHR 0x22, CHR '','', CHR 0x22] @ ''port'' @ [CHR 0x22, CHR '':'', CHR 0x22] @ port st @
     [CHR 0x22, CHR ''}'']"

definition read_settings_text :: "string \<Rightarrow> ServerSettings option" where
  "read_settings_text t =
     (let p1 = [CHR ''{'', CHR 0x22] @ ''host'' @ [CHR 0x22, CHR '':'', CHR 0x22];
          p2 = [CHR 0x22, CHR '','', CHR 0x22] @ ''port'' @ [CHR 0x22, CHR '':'', CHR 0x22];
          p3 = [CHR 0x22, CHR ''}'']
      in if take (length p1) t \<noteq> p1 then None
         else
           let t1 = drop (length p1) t;
               h = takeWhile (\<lambda>c. c \<noteq> CHR 0x22) t1;
               t2 = drop (length h) t1
           in if take (length p2) t2 \<noteq> p2 then None
              else
                let t3 = drop (length p2) t2;
                    p = takeWhile (\<lambda>c. c \<noteq> CHR 0x22) t3;
                    t4 = drop (length p) t3
                in if t4 = p3 then Some \<lparr> host = h, port = p \<rparr> else None)"

section \<open>The minimal variant\<close>

definition handleSendMessage_min_begin :: "min_state \<Rightarrow> min_state \<times> chat_request option" where
  "handleSendMessage_min_begin s =
     (if trim (input_min s) = [] \<or> selectedModel s = [] then (s, None)
      else
        let userMessage = input_min s
        in (s\<lparr> messages_min := messages_min s @ [\<lparr> role = User, content = userMessage \<rparr>],
               input_min := [],
               isLoading_min := True \<rparr>,
            Some \<lparr> req_method = ''POST'',
                   req_url = ''http://localhost:1234/v1/chat/completions'',
                   req_content_type = ''application/json'',
                   body_model = selectedModel s,
                   body_messages = [\<lparr> role = User, content = userMessage \<rparr>] \<rparr>))"

definition handleSendMessage_min_finish :: "fetch_result \<Rightarrow> min_state \<Rightarrow> min_state" where
  \<comment> \<open>Both setters are functional updates: they append to the list as it is then.\<close>
  "handleSendMessage_min_finish res s =
     (case res of
        Resolved c \<Rightarrow>
          s\<lparr> messages_min := messages_min s @ [\<lparr> role = Assistant, content = aiResponse c \<rparr>],
             isLoading_min := False \<rparr>
      | Rejected \<Rightarrow>
          s\<lparr> messages_min :=
               messages_min s @
               [\<lparr> role = Assistant,
                  content = ''Sorry, there was an error processing your request.'' \<rparr>],
             isLoading_min := False \<rparr>)"

definition handleSendMessage_min :: "(chat_request \<Rightarrow> fetch_result) \<Rightarrow> min_state \<Rightarrow> min_state" where
  "handleSendMessage_min server s =
     (case handleSendMessage_min_begin s of
        (s', None) \<Rightarrow> s'
      | (s', Some req) \<Rightarrow> handleSendMessage_min_finish (server req) s')"

section \<open>The session invariant\<close>

definition active_listed :: "chat_state \<Rightarrow> bool" where
  \<comment> \<open>Some conversation of the list has the active conversation's id.\<close>
  "active_listed s = (id_conv (currentConversation s) \<in> set (map id_conv (conversations s)))"

section \<open>Basic facts\<close>

lemmas run_defs =
  initial_state_def startNewChat_def generateId_def substring_def handleModelChange_def
  setInput_def updateConversationTitle_def aiResponse_def switchConversation_def
  handleSendMessage_def handleSendMessage_begin_def handleSendMessage_finish_def
  handleSendMessage_min_def handleSendMessage_min_begin_def handleSendMessage_min_finish_def
  completions_url_def trim_def is_whitespace_def Let_def

lemma substring_0: "substring 0 n s = take n s"
  by (simp add: substring_def Let_def min_def max_def)

lemma handleSendMessage_sends:
  "trim (input s) \<noteq> [] \<Longrightarrow> model (currentConversation s) \<noteq> [] \<Longrightarrow>
   handleSendMessage now1 now2 server s =
     handleSendMessage_finish s now2
       (server \<lparr> req_method = ''POST'',
                 req_url = completions_url (host (serverSettings s)) (port (serverSettings s)),
                 req_content_type = ''application/json'',
                 body_model = model (currentConversation s),
                 body_messages = [\<lparr> role = User, content = input s \<rparr>] \<rparr>)
       (fst (handleSendMessage_begin now1 s))"
  by (simp add: handleSendMessage_def handleSendMessage_begin_def Let_def)

lemma finish_title:
  "title (currentConversation (handleSendMessage_finish snap now (Resolved c) s)) =
     (if title (currentConversation snap) = ''New Conversation'' \<and> messages (currentConversation snap) = []
      then (if length (input snap) > 30 then take 30 (input snap) @ ''...'' else input snap)
      else title (currentConversation snap))"
  by (simp add: handleSendMessage_finish_def updateConversationTitle_def Let_def substring_0)

lemma finish_is_reply_then_retitle:
  "handleSendMessage_finish snap now (Resolved answer) s =
     (updateConversationTitle snap
        (messages (currentConversation snap) @
         [\<lparr> role = User, content = input snap \<rparr>,
          \<lparr> role = Assistant, content = aiResponse answer \<rparr>])
        (handleSendMessage_reply snap now answer s))
     \<lparr> isLoading := False \<rparr>"
  by (simp add: handleSendMessage_finish_def handleSendMessage_reply_def Let_def)

lemma reply_appends:
  "messages (currentConversation (handleSendMessage_reply snap now answer s)) =
     messages (currentConversation snap) @
     [\<lparr> role = User, content = input snap \<rparr>,
      \<lparr> role = Assistant, content = aiResponse answer \<rparr>]"
  by (simp add: handleSendMessage_reply_def Let_def)

subsection \<open>Mirroring into the list keeps the ids and their order\<close>

lemma mirror_keeps_ids:
  "id_conv u = k \<Longrightarrow>
   map id_conv (map (\<lambda>c. if id_conv c = k then u else c) cs) = map id_conv cs"
  by (induction cs) auto

lemma handleModelChange_ids:
  "map id_conv (conversations (handleModelChange m s)) = map id_conv (conversations s)
   \<and> id_conv (currentConversation (handleModelChange m s)) = id_conv (currentConversation s)"
  by (simp add: handleModelChange_def Let_def mirror_keeps_ids)

lemma updateConversationTitle_ids:
  "map id_conv (conversations (updateConversationTitle snap msgs s)) = map id_conv (conversations s)"
  by (simp add: updateConversationTitle_def Let_def mirror_keeps_ids)

lemma handleSendMessage_begin_ids:
  "map id_conv (conversations (fst (handleSendMessage_begin now s))) = map id_conv (conversations s)
   \<and> id_conv (currentConversation (fst (handleSendMessage_begin now s))) =
       id_conv (currentConversation s)"
  by (simp add: handleSendMessage_begin_def Let_def mirror_keeps_ids)

lemma handleSendMessage_finish_ids:
  "map id_conv (conversations (handleSendMessage_finish snap now res s)) = map id_conv (conversations s)
   \<and> id_conv (currentConversation (handleSendMessage_finish snap now res s)) =
       id_conv (currentConversation snap)"
  by (cases res)
     (simp_all add: handleSendMessage_finish_def Let_def mirror_keeps_ids updateConversationTitle_def)

lemma handleSendMessage_ids:
  "map id_conv (conversations (handleSendMessage now1 now2 server s)) = map id_conv (conversations s)
   \<and> id_conv (currentConversation (handleSendMessage now1 now2 server s)) =
       id_conv (currentConversation s)"
proof (cases "trim (input s) = [] \<or> model (currentConversation s) = []")
  case True
  then show ?thesis
    by (simp add: handleSendMessage_def handleSendMessage_begin_def)
next
  case False
  then show ?thesis
    by (simp add: handleSendMessage_sends handleSendMessage_finish_ids handleSendMessage_begin_ids)
qed

subsection \<open>Where the invariant is established and where it is kept\<close>

lemma active_listed_initial: "\<not> active_listed (initial_state r now)"
  by (simp add: active_listed_def initial_state_def)

lemma active_listed_startNewChat: "active_listed (startNewChat r now s)"
  by (simp add: active_listed_def startNewChat_def Let_def)

lemma active_listed_switchConversation:
  "active_listed s \<or> i \<in> set (map id_conv (conversations s)) \<Longrightarrow>
   active_listed (switchConversation i s)"
  by (auto simp: active_listed_def switchConversation_def find_Some_iff find_None_iff
        split: option.splits)

lemma active_listed_handleModelChange:
  "active_listed s \<Longrightarrow> active_listed (handleModelChange m s)"
  by (simp add: active_listed_def handleModelChange_ids)

lemma active_listed_handleSendMessage:
  "active_listed s \<Longrightarrow> active_listed (handleSendMessage now1 now2 server s)"
  by (simp add: active_listed_def handleSendMessage_ids)

subsection \<open>What a send leaves in the active conversation\<close>

lemma send_rejected_appends:
  "trim (input s) \<noteq> [] \<Longrightarrow> model (currentConversation s) \<noteq> [] \<Longrightarrow>
   messages (currentConversation (handleSendMessage now1 now2 (\<lambda>req. Rejected) s)) =
     messages (currentConversation s) @
     [\<lparr> role = User, content = input s \<rparr>,
      \<lparr> role = Assistant, content = ''Sorry, there was an error processing your request.'' \<rparr>]
   \<and> timestamp (currentConversation (handleSendMessage now1 now2 (\<lambda>req. Rejected) s)) = now2"
  by (simp add: handleSendMessage_sends handleSendMessage_finish_def Let_def)

lemma send_resolved_appends:
  "trim (input s) \<noteq> [] \<Longrightarrow> model (currentConversation s) \<noteq> [] \<Longrightarrow>
   title (currentConversation s) \<noteq> ''New Conversation'' \<or> messages (currentConversation s) \<noteq> [] \<Longrightarrow>
   messages (currentConversation (handleSendMessage now1 now2 (\<lambda>req. Resolved c) s)) =
     messages (currentConversation s) @
     [\<lparr> role = User, content = input s \<rparr>, \<lparr> role = Assistant, content = aiResponse c \<rparr>]
   \<and> timestamp (currentConversation (handleSendMessage now1 now2 (\<lambda>req. Resolved c) s)) = now2"
  by (auto simp: handleSendMessage_sends handleSendMessage_finish_def updateConversationTitle_def Let_def)

lemma send_resolved_first_exchange:
  "trim (input s) \<noteq> [] \<Longrightarrow> model (currentConversation s) \<noteq> [] \<Longrightarrow>
   title (currentConversation s) = ''New Conversation'' \<Longrightarrow> messages (currentConversation s) = [] \<Longrightarrow>
   messages (currentConversation (handleSendMessage now1 now2 (\<lambda>req. Resolved c) s)) = []
   \<and> timestamp (currentConversation (handleSendMessage now1 now2 (\<lambda>req. Resolved c) s)) =
       timestamp (currentConversation s)"
  by (simp add: handleSendMessage_sends handleSendMessage_finish_def updateConversationTitle_def Let_def)

lemma send_min_appends:
  "trim (input_min m) \<noteq> [] \<Longrightarrow> selectedModel m \<noteq> [] \<Longrightarrow>
   messages_min (handleSendMessage_min server m) =
     messages_min m @
     [\<lparr> role = User, content = input_min m \<rparr>,
      \<lparr> role = Assistant,
        content = (case server \<lparr> req_method = ''POST'',
                      req_url = ''http://localhost:1234/v1/chat/completions'',
                      req_content_type = ''application/json'',
                      body_model = selectedModel m,
                      body_messages = [\<lparr> role = User, content = input_min m \<rparr>] \<rparr> of
                     Resolved c \<Rightarrow> aiResponse c
                   | Rejected \<Rightarrow> ''Sorry, there was an error processing your request.'') \<rparr>]"
  by (simp add: handleSendMessage_min_def handleSendMessage_min_begin_def
        handleSendMessage_min_finish_def Let_def split: fetch_result.splits)

subsection \<open>Settings\<close>

lemma takeWhile_to_quote:
  "CHR 0x22 \<notin> set xs \<Longrightarrow> takeWhile (\<lambda>c. c \<noteq> CHR 0x22) (xs @ CHR 0x22 # ys) = xs"
  by (induction xs) auto

lemma quote_free_read:
  assumes "CHR 0x22 \<notin> set (host st)" "CHR 0x22 \<notin> set (port st)"
  shows "read_settings_text (settings_text st) = Some st"
  using assms
  by (simp add: read_settings_text_def settings_text_def Let_def takeWhile_to_quote)

lemma settings_text_nonempty: "settings_text st \<noteq> []"
  by (simp add: settings_text_def)

lemma read_example:
  "read_settings_text (settings_text \<lparr> host = ''example.com'', port = ''8080'' \<rparr>) =
     Some \<lparr> host = ''example.com'', port = ''8080'' \<rparr>"
  by (simp add: quote_free_read)

lemma read_garbage: "read_settings_text ''{broken'' = None"
  by (simp add: read_settings_text_def Let_def)

lemma loadSettings_absent:
  "ls ''serverSettings'' = None \<Longrightarrow> loadSettings parseS ls s = s"
  by (simp add: loadSettings_def)

lemma loadSettings_unparseable:
  "ls ''serverSettings'' = Some t \<Longrightarrow> parseS t = None \<Longrightarrow> loadSettings parseS ls s = s"
  by (simp add: loadSettings_def)

lemma loadConversations_settings:
  "serverSettings (loadConversations parseC ls s) = serverSettings s"
  by (simp add: loadConversations_def split: option.splits)

lemma initialize_settings:
  "serverSettings (initialize pd parseC parseS ls s) =
     serverSettings (loadSettings parseS ls s)"
  by (simp add: initialize_def loadSettings_def loadConversations_settings split: option.splits)

lemma request_after_model_and_input:
  "trim typed \<noteq> [] \<Longrightarrow> m \<noteq> [] \<Longrightarrow>
   map_option req_url (snd (handleSendMessage_begin now (setInput typed (handleModelChange m s)))) =
     Some (completions_url (host (serverSettings s)) (port (serverSettings s)))"
  by (simp add: handleSendMessage_begin_def setInput_def handleModelChange_def Let_def)

lemma initialize_tempSettings:
  "tempSettings (initialize pd parseC parseS ls s) = tempSettings (loadSettings parseS ls s)"
  by (simp add: initialize_def loadSettings_def loadConversations_def split: option.splits)

lemma saveSettings_request:
  "snd (saveSettings s) = models_url (host (serverSettings s)) (port (serverSettings s))"
  by (simp add: saveSettings_def fetchModels_def)

lemma saveSettings_effect_request:
  "fetchModels (fst (saveSettings s)) = models_url (host (tempSettings s)) (port (tempSettings s))"
  by (simp add: saveSettings_def fetchModels_def)

lemma fetchModels_settled_keeps:
  "serverSettings (fetchModels_settled res s) = serverSettings s
   \<and> conversations (fetchModels_settled res s) = conversations s
   \<and> currentConversation (fetchModels_settled res s) = currentConversation s"
  by (simp add: fetchModels_settled_def split: option.splits)

lemma page_load_first_request:
  "hd (snd (snd (page_load pd stringifyC parseC stringifyS parseS r now ls))) =
     ''http://localhost:1234/v1/models''"
  by (simp add: page_load_def Let_def fetchModels_def models_url_def initial_state_def)

lemma page_load_state:
  "fst (page_load pd stringifyC parseC stringifyS parseS r now ls) =
     initialize pd parseC parseS ls (initial_state r now)"
  by (simp add: page_load_def Let_def)

lemma page_load_storage:
  "fst (snd (page_load pd stringifyC parseC stringifyS parseS r now ls)) ''serverSettings'' =
     Some (stringifyS (serverSettings (initialize pd parseC parseS ls (initial_state r now))))"
  by (simp add: page_load_def Let_def saveSettingsEffect_def)

lemma page_load_requests:
  "snd (snd (page_load pd stringifyC parseC stringifyS parseS r now ls)) =
     ''http://localhost:1234/v1/models'' #
     (if settings_loaded parseS ls
      then [fetchModels (initialize pd parseC parseS ls (initial_state r now))] else [])"
  by (simp add: page_load_def Let_def fetchModels_def models_url_def initial_state_def)

subsection \<open>Runs of "new chat" actions\<close>

lemma startNewChat_model:
  "model (currentConversation (startNewChat r now s)) = model (currentConversation s)"
  by (simp add: startNewChat_def Let_def)

lemma startNewChats_model:
  "model (currentConversation (startNewChats ds s)) = model (currentConversation s)"
proof (induction ds arbitrary: s)
  case Nil
  show ?case by simp
next
  case (Cons d ds)
  obtain r now where d: "d = (r, now)" by (cases d)
  show ?case by (simp add: d Cons.IH startNewChat_model)
qed

lemma startNewChats_list:
  "conversations (startNewChats ds s) =
     rev (map (\<lambda>d. \<lparr> id_conv = generateId (fst d), title = ''New Conversation'', messages = [],
                     model = model (currentConversation s), timestamp = snd d \<rparr>) ds)
     @ conversations s"
proof (induction ds arbitrary: s)
  case Nil
  show ?case by simp
next
  case (Cons d ds)
  obtain r now where d: "d = (r, now)" by (cases d)
  have "conversations (startNewChat r now s) =
      \<lparr> id_conv = generateId r, title = ''New Conversation'', messages = [],
        model = model (currentConversation s), timestamp = now \<rparr> # conversations s"
    by (simp add: startNewChat_def Let_def)
  then show ?case
    by (simp add: d Cons.IH startNewChat_model)
qed

section \<open>The claims\<close>

text \<open>
  Claim C1: in the enhanced variant the active conversation is always present in the
  conversation list, in particular the conversation created at startup. The code keeps the
  invariant once it holds (\<open>active_listed_handleModelChange\<close>,
  \<open>active_listed_handleSendMessage\<close>) and \<open>startNewChat\<close> establishes it, but the startup
  conversation is never put into the list. After a page load on an empty storage the list
  is empty, and it stays empty when a model is chosen and a message is sent, while the
  active conversation \<open>abc\<close> collects the messages.
\<close>

theorem C1_startup_conversation_not_listed:
  "(let s0 = fst (page_load False (\<lambda>cs. []) (\<lambda>t. None) settings_text read_settings_text
                   ''0.abc'' 1 Map.empty);
        s1 = handleModelChange ''m'' s0;
        s2 = handleSendMessage 5 6 (\<lambda>req. Rejected) (setInput ''hi'' s1)
    in conversations s0 = [] \<and> id_conv (currentConversation s0) = ''abc''
       \<and> conversations s1 = [] \<and> id_conv (currentConversation s1) = ''abc''
       \<and> conversations s2 = [] \<and> id_conv (currentConversation s2) = ''abc''
       \<and> length (messages (currentConversation s2)) = 2)"
  by (simp add: page_load_def initialize_def loadSettings_def loadConversations_def run_defs)

text \<open>
  Claim C2, as amended: after any run of "new chat" actions the list holds the
  conversations created, the most recent first, in front of the conversations that were
  there before. Its ids are unique exactly when the tokens that \<open>generateId\<close> produced are
  pairwise distinct and differ from the ids already in the list, which are themselves
  unique; nothing in the code checks for a repeated token.
\<close>

theorem C2_new_chats_most_recent_first:
  "conversations (startNewChats ds s) =
     rev (map (\<lambda>d. \<lparr> id_conv = generateId (fst d), title = ''New Conversation'', messages = [],
                     model = model (currentConversation s), timestamp = snd d \<rparr>) ds)
     @ conversations s
   \<and> map id_conv (conversations (startNewChats ds s)) =
       rev (map (generateId \<circ> fst) ds) @ map id_conv (conversations s)
   \<and> (distinct (map id_conv (conversations (startNewChats ds s))) \<longleftrightarrow>
        distinct (map (generateId \<circ> fst) ds) \<and> distinct (map id_conv (conversations s))
        \<and> set (map (generateId \<circ> fst) ds) \<inter> set (map id_conv (conversations s)) = {})"
proof -
  have ids: "map id_conv (conversations (startNewChats ds s)) =
      rev (map (generateId \<circ> fst) ds) @ map id_conv (conversations s)"
    by (simp add: startNewChats_list rev_map comp_def)
  have "distinct (map id_conv (conversations (startNewChats ds s))) \<longleftrightarrow>
        distinct (map (generateId \<circ> fst) ds) \<and> distinct (map id_conv (conversations s))
        \<and> set (map (generateId \<circ> fst) ds) \<inter> set (map id_conv (conversations s)) = {}"
    unfolding ids by auto
  with ids show ?thesis
    by (simp only: startNewChats_list simp_thms)
qed

theorem C2_new_chats_witness:
  "map id_conv (conversations
     (startNewChats [(''0.abc'', 1), (''0.xyz'', 2)] (initial_state ''0.q'' 0))) = [''xyz'', ''abc'']
   \<and> distinct (map id_conv (conversations
        (startNewChats [(''0.abc'', 1), (''0.xyz'', 2)] (initial_state ''0.q'' 0))))"
  using C2_new_chats_most_recent_first
          [where ds = "[(''0.abc'', 1), (''0.xyz'', 2)]" and s = "initial_state ''0.q'' 0"]
  by (simp add: generateId_def substring_def initial_state_def)

text \<open>
  The claim as stated fails when the random number generator gives the same value twice:
  two "new chat" actions then create two conversations with one id.
\<close>

theorem C2_repeated_draw_counterexample:
  "\<not> distinct (map id_conv (conversations
       (startNewChats [(''0.abc'', 1), (''0.abc'', 2)] (initial_state ''0.xyz'' 0))))"
  by (simp add: startNewChat_def generateId_def substring_def initial_state_def Let_def)

text \<open>
  Claim C3: the title is derived only when the title is still \<open>New Conversation\<close> and the
  message list handed over has exactly two entries; otherwise \<open>updateConversationTitle\<close>
  changes nothing, whatever the title was replaced by. When it fires, the title is the
  content of the first message, cut to its first 30 characters followed by \<open>...\<close> when it
  is longer than 30 characters. Within a send that the server answers, it fires exactly
  when the conversation had no messages and the placeholder title, and the first message
  is then the text that was typed.
\<close>

theorem C3_title_auto_derivation:
  "(length msgs \<noteq> 2 \<or> title (currentConversation snap) \<noteq> ''New Conversation'' \<longrightarrow>
      updateConversationTitle snap msgs s = s)
   \<and> (length msgs = 2 \<and> title (currentConversation snap) = ''New Conversation'' \<longrightarrow>
        title (currentConversation (updateConversationTitle snap msgs s)) =
          (if length (content (msgs ! 0)) > 30 then take 30 (content (msgs ! 0)) @ ''...''
           else content (msgs ! 0)))
   \<and> (trim (input s) \<noteq> [] \<and> model (currentConversation s) \<noteq> [] \<longrightarrow>
        title (currentConversation (handleSendMessage sent settled (\<lambda>req. Resolved c) s)) =
          (if title (currentConversation s) = ''New Conversation'' \<and> messages (currentConversation s) = []
           then (if length (input s) > 30 then take 30 (input s) @ ''...'' else input s)
           else title (currentConversation s)))"
proof (intro conjI impI)
  assume "length msgs \<noteq> 2 \<or> title (currentConversation snap) \<noteq> ''New Conversation''"
  then show "updateConversationTitle snap msgs s = s"
    by (auto simp: updateConversationTitle_def)
next
  assume "length msgs = 2 \<and> title (currentConversation snap) = ''New Conversation''"
  then show "title (currentConversation (updateConversationTitle snap msgs s)) =
          (if length (content (msgs ! 0)) > 30 then take 30 (content (msgs ! 0)) @ ''...''
           else content (msgs ! 0))"
    by (simp add: updateConversationTitle_def Let_def substring_0)
next
  assume "trim (input s) \<noteq> [] \<and> model (currentConversation s) \<noteq> []"
  then show "title (currentConversation (handleSendMessage sent settled (\<lambda>req. Resolved c) s)) =
          (if title (currentConversation s) = ''New Conversation'' \<and> messages (currentConversation s) = []
           then (if length (input s) > 30 then take 30 (input s) @ ''...'' else input s)
           else title (currentConversation s))"
    by (simp add: handleSendMessage_sends finish_title)
qed

theorem C3_title_auto_derivation_witness:
  "title (currentConversation
     (updateConversationTitle
        (startNewChat ''0.xyz'' 2 (initial_state ''0.abc'' 1))
        [\<lparr> role = User, content = ''What is the capital city of France?'' \<rparr>,
         \<lparr> role = Assistant, content = ''Paris'' \<rparr>]
        (startNewChat ''0.xyz'' 2 (initial_state ''0.abc'' 1))))
     = ''What is the capital city of Fr...''
   \<and> updateConversationTitle
        (startNewChat ''0.xyz'' 2 (initial_state ''0.abc'' 1))
        [\<lparr> role = User, content = ''What is the capital city of France?'' \<rparr>]
        (startNewChat ''0.xyz'' 2 (initial_state ''0.abc'' 1))
     = startNewChat ''0.xyz'' 2 (initial_state ''0.abc'' 1)
   \<and> title (currentConversation
        (handleSendMessage 5 6 (\<lambda>req. Resolved (Some ''Paris''))
           (setInput ''Capital of France?'' (handleModelChange ''m''
              (startNewChat ''0.xyz'' 2 (initial_state ''0.abc'' 1))))))
     = ''Capital of France?''"
  using C3_title_auto_derivation
          [where snap = "startNewChat ''0.xyz'' 2 (initial_state ''0.abc'' 1)"
             and s = "startNewChat ''0.xyz'' 2 (initial_state ''0.abc'' 1)"
             and msgs = "[\<lparr> role = User, content = ''What is the capital city of France?'' \<rparr>,
                          \<lparr> role = Assistant, content = ''Paris'' \<rparr>]"]
        C3_title_auto_derivation
          [where snap = "startNewChat ''0.xyz'' 2 (initial_state ''0.abc'' 1)"
             and s = "startNewChat ''0.xyz'' 2 (initial_state ''0.abc'' 1)"
             and msgs = "[\<lparr> role = User, content = ''What is the capital city of France?'' \<rparr>]"]
        C3_title_auto_derivation
          [where s = "setInput ''Capital of France?'' (handleModelChange ''m''
                        (startNewChat ''0.xyz'' 2 (initial_state ''0.abc'' 1)))"
             and sent = 5 and settled = 6 and c = "Some ''Paris''"]
  by (simp add: run_defs)

text \<open>
  Claim C4: every completed send grows the active conversation by a user message and an
  assistant message and updates its timestamp. This holds when the request fails
  (\<open>send_rejected_appends\<close>), in the minimal variant (\<open>send_min_appends\<close>) and for every
  answered send to a conversation that holds messages or has lost the placeholder title
  (\<open>send_resolved_appends\<close>). On an answered send to a conversation with no messages and
  the placeholder title, as on the first send of a conversation,
  \<open>updateConversationTitle\<close> runs last and stores the conversation of the render in which
  the handler was created, with the new title: both messages are gone and the timestamp
  is the one from before the send (\<open>send_resolved_first_exchange\<close>).
  Here a new conversation, created at time 2, is sent \<open>hi\<close> and the server answers
  \<open>hello\<close>.
\<close>

theorem C4_first_exchange_discarded:
  "(let s = setInput ''hi'' (handleModelChange ''m''
              (startNewChat ''0.xyz'' 2 (initial_state ''0.abc'' 1)));
        s' = handleSendMessage 5 6 (\<lambda>req. Resolved (Some ''hello'')) s
    in messages (currentConversation s) = []
       \<and> messages (currentConversation s') = []
       \<and> timestamp (currentConversation s') = 2
       \<and> title (currentConversation s') = ''hi''
       \<and> conversations s' = [currentConversation s'])"
  by (simp add: run_defs)

text \<open>
  Claim C5: the request is a POST to \<open>http://{host}:{port}/v1/chat/completions\<close> whose
  body names the selected model and carries a message list of one element, the user
  message just typed; the messages the conversation already holds never enter it. The
  enhanced variant takes host and port from the server settings; the minimal variant has
  them fixed to \<open>localhost\<close> and \<open>1234\<close>.
\<close>

theorem C5_request_holds_latest_message_only:
  "(trim (input s) \<noteq> [] \<and> model (currentConversation s) \<noteq> [] \<longrightarrow>
      snd (handleSendMessage_begin now s) =
        Some \<lparr> req_method = ''POST'',
               req_url = ''http://'' @ host (serverSettings s) @ '':'' @ port (serverSettings s)
                           @ ''/v1/chat/completions'',
               req_content_type = ''application/json'',
               body_model = model (currentConversation s),
               body_messages = [\<lparr> role = User, content = input s \<rparr>] \<rparr>)
   \<and> (trim (input_min m) \<noteq> [] \<and> selectedModel m \<noteq> [] \<longrightarrow>
      snd (handleSendMessage_min_begin m) =
        Some \<lparr> req_method = ''POST'',
               req_url = ''http://'' @ ''localhost'' @ '':'' @ ''1234'' @ ''/v1/chat/completions'',
               req_content_type = ''application/json'',
               body_model = selectedModel m,
               body_messages = [\<lparr> role = User, content = input_min m \<rparr>] \<rparr>)"
  by (simp add: handleSendMessage_begin_def handleSendMessage_min_begin_def Let_def
        completions_url_def)

theorem C5_request_witness:
  "snd (handleSendMessage_begin 7
         (setInput ''second'' (handleSendMessage 5 6 (\<lambda>req. Rejected)
            (setInput ''first'' (handleModelChange ''m''
               (startNewChat ''0.xyz'' 2 (initial_state ''0.abc'' 1)))))))
     = Some \<lparr> req_method = ''POST'',
              req_url = ''http://localhost:1234/v1/chat/completions'',
              req_content_type = ''application/json'',
              body_model = ''m'',
              body_messages = [\<lparr> role = User, content = ''second'' \<rparr>] \<rparr>
   \<and> length (messages (currentConversation
         (setInput ''second'' (handleSendMessage 5 6 (\<lambda>req. Rejected)
            (setInput ''first'' (handleModelChange ''m''
               (startNewChat ''0.xyz'' 2 (initial_state ''0.abc'' 1)))))))) = 2
   \<and> snd (handleSendMessage_min_begin
         \<lparr> messages_min = [\<lparr> role = User, content = ''first'' \<rparr>,
                            \<lparr> role = Assistant, content = ''reply'' \<rparr>],
           input_min = ''second'', isLoading_min = False, models_min = [''m''],
           selectedModel = ''m'' \<rparr>)
     = Some \<lparr> req_method = ''POST'',
              req_url = ''http://localhost:1234/v1/chat/completions'',
              req_content_type = ''application/json'',
              body_model = ''m'',
              body_messages = [\<lparr> role = User, content = ''second'' \<rparr>] \<rparr>"
  using C5_request_holds_latest_message_only
          [where s = "setInput ''second'' (handleSendMessage 5 6 (\<lambda>req. Rejected)
                        (setInput ''first'' (handleModelChange ''m''
                           (startNewChat ''0.xyz'' 2 (initial_state ''0.abc'' 1)))))"
             and now = 7
             and m = "\<lparr> messages_min = [\<lparr> role = User, content = ''first'' \<rparr>,
                                          \<lparr> role = Assistant, content = ''reply'' \<rparr>],
                        input_min = ''second'', isLoading_min = False, models_min = [''m''],
                        selectedModel = ''m'' \<rparr>"]
  by (simp add: run_defs)

text \<open>
  Claim C6, as amended: "new chat" creates a conversation whose id is the token that
  \<open>generateId\<close> cuts from the random number drawn (the characters 2 to 14 of its base-36
  rendering), with the title \<open>New Conversation\<close>, no messages, the model of the
  conversation that was active and the current time; it becomes the active conversation
  and is put at the front of the list. The id is new to the list only when no listed
  conversation has that token already: nothing checks for a repeat, and the ids of the
  list stay unique exactly when it is not one.
\<close>

theorem C6_startNewChat:
  "currentConversation (startNewChat r now s) =
     \<lparr> id_conv = take 13 (drop 2 r), title = ''New Conversation'', messages = [],
       model = model (currentConversation s), timestamp = now \<rparr>
   \<and> conversations (startNewChat r now s) =
       currentConversation (startNewChat r now s) # conversations s
   \<and> (distinct (map id_conv (conversations (startNewChat r now s))) \<longleftrightarrow>
        take 13 (drop 2 r) \<notin> set (map id_conv (conversations s))
        \<and> distinct (map id_conv (conversations s)))"
proof -
  have token: "generateId r = take 13 (drop 2 r)"
    by (simp add: generateId_def substring_def Let_def min_def max_def)
  show ?thesis
    by (simp add: startNewChat_def Let_def token)
qed

theorem C6_startNewChat_witness:
  "currentConversation (startNewChat ''0.4fzyo82mvyr9q'' 2 (startNewChat ''0.abc'' 1 (initial_state ''0.xyz'' 0))) =
     \<lparr> id_conv = ''4fzyo82mvyr9q'', title = ''New Conversation'', messages = [],
       model = [], timestamp = 2 \<rparr>
   \<and> map id_conv (conversations
        (startNewChat ''0.4fzyo82mvyr9q'' 2 (startNewChat ''0.abc'' 1 (initial_state ''0.xyz'' 0))))
      = [''4fzyo82mvyr9q'', ''abc'']
   \<and> distinct (map id_conv (conversations
        (startNewChat ''0.4fzyo82mvyr9q'' 2 (startNewChat ''0.abc'' 1 (initial_state ''0.xyz'' 0)))))"
  using C6_startNewChat
          [where r = "''0.4fzyo82mvyr9q''" and now = 2
             and s = "startNewChat ''0.abc'' 1 (initial_state ''0.xyz'' 0)"]
  by (simp add: run_defs)

text \<open>
  The claim as stated promises a fresh id. With a random number that was drawn before,
  the new conversation gets the id of a conversation that is in the list already; with
  the random number 0, rendered \<open>0\<close>, it gets the empty id.
\<close>

theorem C6_repeated_token_counterexample:
  "id_conv (currentConversation
      (startNewChat ''0.abc'' 2 (startNewChat ''0.abc'' 1 (initial_state ''0.xyz'' 0))))
     \<in> set (map id_conv (conversations (startNewChat ''0.abc'' 1 (initial_state ''0.xyz'' 0))))
   \<and> id_conv (currentConversation (startNewChat ''0'' 2 (initial_state ''0.xyz'' 0))) = []"
  by (simp add: run_defs)

text \<open>
  Claim C7: switching to an id that no conversation of the list has changes nothing.
  Switching to an id of the list makes the first conversation with that id the active
  one and leaves the list as it is.
\<close>

theorem C7_switchConversation:
  "(i \<notin> id_conv ` set (conversations s) \<longrightarrow> switchConversation i s = s)
   \<and> (i \<in> id_conv ` set (conversations s) \<longrightarrow>
        id_conv (currentConversation (switchConversation i s)) = i
        \<and> find (\<lambda>c. id_conv c = i) (conversations s) = Some (currentConversation (switchConversation i s))
        \<and> currentConversation (switchConversation i s) \<in> set (conversations s)
        \<and> conversations (switchConversation i s) = conversations s)"
proof (cases "find (\<lambda>c. id_conv c = i) (conversations s)")
  case None
  then have "i \<notin> id_conv ` set (conversations s)"
    by (auto simp: find_None_iff)
  with None show ?thesis
    by (simp add: switchConversation_def)
next
  case (Some c)
  then have "id_conv c = i" "c \<in> set (conversations s)"
    by (auto simp: find_Some_iff)
  with Some show ?thesis
    by (auto simp: switchConversation_def)
qed

theorem C7_switchConversation_witness:
  "switchConversation ''zzz''
     (startNewChat ''0.def'' 3 (startNewChat ''0.abc'' 2 (initial_state ''0.xyz'' 1)))
     = startNewChat ''0.def'' 3 (startNewChat ''0.abc'' 2 (initial_state ''0.xyz'' 1))
   \<and> id_conv (currentConversation (switchConversation ''abc''
        (startNewChat ''0.def'' 3 (startNewChat ''0.abc'' 2 (initial_state ''0.xyz'' 1))))) = ''abc''
   \<and> map id_conv (conversations (switchConversation ''abc''
        (startNewChat ''0.def'' 3 (startNewChat ''0.abc'' 2 (initial_state ''0.xyz'' 1)))))
      = [''def'', ''abc'']"
  using C7_switchConversation
          [where i = "''zzz''"
             and s = "startNewChat ''0.def'' 3 (startNewChat ''0.abc'' 2 (initial_state ''0.xyz'' 1))"]
        C7_switchConversation
          [where i = "''abc''"
             and s = "startNewChat ''0.def'' 3 (startNewChat ''0.abc'' 2 (initial_state ''0.xyz'' 1))"]
  by (simp add: run_defs)

text \<open>
  Claim C8, as amended: server settings survive a reload. When the settings form holds
  host \<open>h\<close> and port \<open>p\<close> and is saved, the saving effect stores their text; a later page
  load reads them back into the active and the pending settings, provided the platform's
  parser returns the settings from the text its serialiser produced (and that text is
  not empty). The requests issued from the renders that follow the load use them: the
  model-list request that the settings effect issues again, and every completion
  request. The one model-list request that the first render of the page load issues
  goes to the defaults \<open>localhost\<close> and \<open>1234\<close>, since the effects of that render run on the
  initial state. When the entry is absent, or the parser rejects its text, the page load
  keeps the defaults and issues that one request only.
\<close>

theorem C8_settings_round_trip:
  "(parseS (stringifyS \<lparr> host = h, port = p \<rparr>) = Some \<lparr> host = h, port = p \<rparr>
      \<and> stringifyS \<lparr> host = h, port = p \<rparr> \<noteq> [] \<and> trim typed \<noteq> [] \<and> m \<noteq> [] \<longrightarrow>
      (let saved = fst (saveSettings (setTempPort p (setTempHost h s)));
           loaded = page_load pd stringifyC parseC stringifyS parseS r now
                      (saveSettingsEffect stringifyS saved ls);
           reloaded = fst loaded
       in serverSettings saved = \<lparr> host = h, port = p \<rparr>
          \<and> serverSettings reloaded = \<lparr> host = h, port = p \<rparr>
          \<and> tempSettings reloaded = \<lparr> host = h, port = p \<rparr>
          \<and> snd (snd loaded) =
              [''http://localhost:1234/v1/models'', ''http://'' @ h @ '':'' @ p @ ''/v1/models'']
          \<and> fst (snd loaded) ''serverSettings'' = Some (stringifyS \<lparr> host = h, port = p \<rparr>)
          \<and> map_option req_url
               (snd (handleSendMessage_begin later (setInput typed (handleModelChange m reloaded)))) =
             Some (''http://'' @ h @ '':'' @ p @ ''/v1/chat/completions'')))
   \<and> (ls ''serverSettings'' = None \<longrightarrow>
        serverSettings (fst (page_load pd stringifyC parseC stringifyS parseS r now ls)) =
          \<lparr> host = ''localhost'', port = ''1234'' \<rparr>
        \<and> snd (snd (page_load pd stringifyC parseC stringifyS parseS r now ls)) =
            [''http://localhost:1234/v1/models''])
   \<and> (ls ''serverSettings'' = Some t \<and> parseS t = None \<longrightarrow>
        serverSettings (fst (page_load pd stringifyC parseC stringifyS parseS r now ls)) =
          \<lparr> host = ''localhost'', port = ''1234'' \<rparr>
        \<and> snd (snd (page_load pd stringifyC parseC stringifyS parseS r now ls)) =
            [''http://localhost:1234/v1/models''])"
proof (intro conjI impI)
  assume a: "parseS (stringifyS \<lparr> host = h, port = p \<rparr>) = Some \<lparr> host = h, port = p \<rparr>
      \<and> stringifyS \<lparr> host = h, port = p \<rparr> \<noteq> [] \<and> trim typed \<noteq> [] \<and> m \<noteq> []"
  define saved where "saved = fst (saveSettings (setTempPort p (setTempHost h s)))"
  define ls' where "ls' = saveSettingsEffect stringifyS saved ls"
  define loaded where "loaded = page_load pd stringifyC parseC stringifyS parseS r now ls'"
  define reloaded where "reloaded = fst loaded"
  have saved: "serverSettings saved = \<lparr> host = h, port = p \<rparr>"
    by (simp add: saved_def saveSettings_def setTempPort_def setTempHost_def)
  have stored: "ls' ''serverSettings'' = Some (stringifyS \<lparr> host = h, port = p \<rparr>)"
    by (simp add: ls'_def saveSettingsEffect_def saved)
  have was_loaded: "settings_loaded parseS ls'"
    using a by (simp add: settings_loaded_def stored)
  have load: "loadSettings parseS ls' (initial_state r now) =
      (initial_state r now)\<lparr> serverSettings := \<lparr> host = h, port = p \<rparr>,
                              tempSettings := \<lparr> host = h, port = p \<rparr> \<rparr>"
    using a by (simp add: loadSettings_def stored)
  have reloaded: "serverSettings reloaded = \<lparr> host = h, port = p \<rparr>"
    by (simp add: reloaded_def loaded_def page_load_state initialize_settings load)
  have reloaded_temp: "tempSettings reloaded = \<lparr> host = h, port = p \<rparr>"
    by (simp add: reloaded_def loaded_def page_load_state initialize_tempSettings load)
  have requests: "snd (snd loaded) =
      [''http://localhost:1234/v1/models'', ''http://'' @ h @ '':'' @ p @ ''/v1/models'']"
    using reloaded
    by (simp add: loaded_def page_load_requests was_loaded fetchModels_def models_url_def
          reloaded_def page_load_state)
  have storage: "fst (snd loaded) ''serverSettings'' = Some (stringifyS \<lparr> host = h, port = p \<rparr>)"
    using reloaded by (simp add: loaded_def page_load_storage reloaded_def page_load_state)
  have post: "map_option req_url
          (snd (handleSendMessage_begin later (setInput typed (handleModelChange m reloaded)))) =
        Some (''http://'' @ h @ '':'' @ p @ ''/v1/chat/completions'')"
    using a by (simp add: request_after_model_and_input reloaded completions_url_def)
  from saved reloaded reloaded_temp requests storage post
  show "let saved = fst (saveSettings (setTempPort p (setTempHost h s)));
           loaded = page_load pd stringifyC parseC stringifyS parseS r now
                      (saveSettingsEffect stringifyS saved ls);
           reloaded = fst loaded
       in serverSettings saved = \<lparr> host = h, port = p \<rparr>
          \<and> serverSettings reloaded = \<lparr> host = h, port = p \<rparr>
          \<and> tempSettings reloaded = \<lparr> host = h, port = p \<rparr>
          \<and> snd (snd loaded) =
              [''http://localhost:1234/v1/models'', ''http://'' @ h @ '':'' @ p @ ''/v1/models'']
          \<and> fst (snd loaded) ''serverSettings'' = Some (stringifyS \<lparr> host = h, port = p \<rparr>)
          \<and> map_option req_url
               (snd (handleSendMessage_begin later (setInput typed (handleModelChange m reloaded)))) =
             Some (''http://'' @ h @ '':'' @ p @ ''/v1/chat/completions'')"
    by (simp add: Let_def saved_def ls'_def loaded_def reloaded_def)
next
  assume "ls ''serverSettings'' = None"
  then show "serverSettings (fst (page_load pd stringifyC parseC stringifyS parseS r now ls)) =
          \<lparr> host = ''localhost'', port = ''1234'' \<rparr>"
    by (simp add: page_load_state initialize_settings loadSettings_absent initial_state_def)
next
  assume "ls ''serverSettings'' = None"
  then show "snd (snd (page_load pd stringifyC parseC stringifyS parseS r now ls)) =
            [''http://localhost:1234/v1/models'']"
    by (simp add: page_load_requests settings_loaded_def)
next
  assume "ls ''serverSettings'' = Some t \<and> parseS t = None"
  then show "serverSettings (fst (page_load pd stringifyC parseC stringifyS parseS r now ls)) =
          \<lparr> host = ''localhost'', port = ''1234'' \<rparr>"
    by (simp add: page_load_state initialize_settings loadSettings_unparseable initial_state_def)
next
  assume "ls ''serverSettings'' = Some t \<and> parseS t = None"
  then show "snd (snd (page_load pd stringifyC parseC stringifyS parseS r now ls)) =
            [''http://localhost:1234/v1/models'']"
    by (simp add: page_load_requests settings_loaded_def)
qed

theorem C8_settings_round_trip_witness:
  "serverSettings (fst (page_load False (\<lambda>cs. []) (\<lambda>t. None) settings_text read_settings_text ''0.abc'' 7
       (saveSettingsEffect settings_text
          (fst (saveSettings (setTempPort ''8080'' (setTempHost ''example.com'' (initial_state ''0.xyz'' 1)))))
          Map.empty))) = \<lparr> host = ''example.com'', port = ''8080'' \<rparr>
   \<and> snd (snd (page_load False (\<lambda>cs. []) (\<lambda>t. None) settings_text read_settings_text ''0.abc'' 7
       (saveSettingsEffect settings_text
          (fst (saveSettings (setTempPort ''8080'' (setTempHost ''example.com'' (initial_state ''0.xyz'' 1)))))
          Map.empty))) = [''http://localhost:1234/v1/models'', ''http://example.com:8080/v1/models'']
   \<and> map_option req_url (snd (handleSendMessage_begin 9 (setInput ''hi'' (handleModelChange ''m''
       (fst (page_load False (\<lambda>cs. []) (\<lambda>t. None) settings_text read_settings_text ''0.abc'' 7
         (saveSettingsEffect settings_text
            (fst (saveSettings (setTempPort ''8080'' (setTempHost ''example.com'' (initial_state ''0.xyz'' 1)))))
            Map.empty))))))) = Some ''http://example.com:8080/v1/chat/completions''
   \<and> serverSettings (fst (page_load False (\<lambda>cs. []) (\<lambda>t. None) settings_text read_settings_text ''0.abc'' 7
       Map.empty)) = \<lparr> host = ''localhost'', port = ''1234'' \<rparr>
   \<and> snd (snd (page_load False (\<lambda>cs. []) (\<lambda>t. None) settings_text read_settings_text ''0.abc'' 7
       Map.empty)) = [''http://localhost:1234/v1/models'']
   \<and> serverSettings (fst (page_load False (\<lambda>cs. []) (\<lambda>t. None) settings_text read_settings_text ''0.abc'' 7
       [''serverSettings'' \<mapsto> ''{broken''])) = \<lparr> host = ''localhost'', port = ''1234'' \<rparr>"
proof -
  have trimmed: "trim ''hi'' \<noteq> []"
    by (simp add: trim_def is_whitespace_def)
  have nonempty: "settings_text \<lparr> host = ''example.com'', port = ''8080'' \<rparr> \<noteq> []"
    by (simp add: settings_text_def)
  show ?thesis
    using C8_settings_round_trip [where parseS = read_settings_text and stringifyS = settings_text
        and h = "''example.com''" and p = "''8080''" and typed = "''hi''" and m = "''m''"
        and s = "initial_state ''0.xyz'' 1" and pd = False and stringifyC = "\<lambda>cs. []"
        and parseC = "\<lambda>t. None" and r = "''0.abc''" and now = 7 and later = 9
        and ls = Map.empty and t = "''{broken''"]
      C8_settings_round_trip [where parseS = read_settings_text and stringifyS = settings_text
        and h = "''example.com''" and p = "''8080''" and typed = "''hi''" and m = "''m''"
        and s = "initial_state ''0.xyz'' 1" and pd = False and stringifyC = "\<lambda>cs. []"
        and parseC = "\<lambda>t. None" and r = "''0.abc''" and now = 7 and later = 9
        and ls = "[''serverSettings'' \<mapsto> ''{broken'']" and t = "''{broken''"]
      read_example read_garbage trimmed nonempty
    by (simp add: Let_def)
qed

text \<open>
  The claim as stated has the values read back used in the requests that follow. The
  first request after the reload is the model-list request of the first render, and it
  goes to \<open>localhost:1234\<close> although \<open>example.com\<close> and \<open>8080\<close> were saved.
\<close>

theorem C8_mount_request_counterexample:
  "hd (snd (snd (page_load False (\<lambda>cs. []) (\<lambda>t. None) settings_text read_settings_text ''0.abc'' 7
       (saveSettingsEffect settings_text
          (fst (saveSettings (setTempPort ''8080'' (setTempHost ''example.com'' (initial_state ''0.xyz'' 1)))))
          Map.empty)))) = ''http://localhost:1234/v1/models''
   \<and> hd (snd (snd (page_load False (\<lambda>cs. []) (\<lambda>t. None) settings_text read_settings_text ''0.abc'' 7
       (saveSettingsEffect settings_text
          (fst (saveSettings (setTempPort ''8080'' (setTempHost ''example.com'' (initial_state ''0.xyz'' 1)))))
          Map.empty)))) \<noteq> models_url ''example.com'' ''8080''
   \<and> serverSettings (fst (page_load False (\<lambda>cs. []) (\<lambda>t. None) settings_text read_settings_text ''0.abc'' 7
       (saveSettingsEffect settings_text
          (fst (saveSettings (setTempPort ''8080'' (setTempHost ''example.com'' (initial_state ''0.xyz'' 1)))))
          Map.empty))) = \<lparr> host = ''example.com'', port = ''8080'' \<rparr>"
  by (simp add: page_load_first_request models_url_def page_load_state initialize_settings
        loadSettings_def saveSettingsEffect_def saveSettings_def setTempPort_def setTempHost_def
        initial_state_def read_example settings_text_nonempty)

text \<open>
  Claim C9: with no model selected a send does nothing: no request is issued and the
  state, the input included, is what it was. This holds in both variants, whatever the
  input is.
\<close>

theorem C9_no_model_no_send:
  "(model (currentConversation s) = [] \<longrightarrow>
      handleSendMessage_begin sent s = (s, None) \<and> handleSendMessage sent settled server s = s)
   \<and> (selectedModel m = [] \<longrightarrow>
      handleSendMessage_min_begin m = (m, None) \<and> handleSendMessage_min server m = m)"
  by (simp add: handleSendMessage_begin_def handleSendMessage_def
        handleSendMessage_min_begin_def handleSendMessage_min_def)

theorem C9_no_model_no_send_witness:
  "handleSendMessage_begin 5 (setInput ''hi'' (initial_state ''0.abc'' 1))
     = (setInput ''hi'' (initial_state ''0.abc'' 1), None)
   \<and> handleSendMessage 5 6 (\<lambda>req. Resolved (Some ''hello'')) (setInput ''hi'' (initial_state ''0.abc'' 1))
     = setInput ''hi'' (initial_state ''0.abc'' 1)
   \<and> handleSendMessage_min (\<lambda>req. Resolved (Some ''hello''))
        \<lparr> messages_min = [], input_min = ''hi'', isLoading_min = False, models_min = [''m''],
          selectedModel = [] \<rparr>
     = \<lparr> messages_min = [], input_min = ''hi'', isLoading_min = False, models_min = [''m''],
         selectedModel = [] \<rparr>"
  using C9_no_model_no_send
          [where s = "setInput ''hi'' (initial_state ''0.abc'' 1)" and sent = 5 and settled = 6
             and server = "\<lambda>req. Resolved (Some ''hello'')"
             and m = "\<lparr> messages_min = [], input_min = ''hi'', isLoading_min = False,
                        models_min = [''m''], selectedModel = [] \<rparr>"]
  by (simp add: run_defs)

text \<open>
  Claim C10: a response whose \<open>choices[0].message.content\<close> is the empty string gets the
  same text as a response without that field: the assistant message that the handler
  appends reads \<open>No response from AI\<close>, never the empty string. The minimal variant
  appends it to the messages. In the enhanced variant the reply step of every send stores
  the conversation with that message at its end, and the send as a whole ends in the
  state that a response without the field gives. After the send the messages end with
  it, except when the conversation had no messages and the placeholder title, as on its
  first send: there \<open>updateConversationTitle\<close> comes last and puts back the conversation
  of the handler's render (claim C4), so that no message at all is left.
\<close>

theorem C10_empty_content_falls_back:
  "aiResponse (Some []) = ''No response from AI''
   \<and> aiResponse (Some []) = aiResponse None
   \<and> (trim (input_min m) \<noteq> [] \<and> selectedModel m \<noteq> [] \<longrightarrow>
        messages_min (handleSendMessage_min (\<lambda>req. Resolved (Some [])) m) =
          messages_min m @
          [\<lparr> role = User, content = input_min m \<rparr>,
           \<lparr> role = Assistant, content = ''No response from AI'' \<rparr>])
   \<and> messages (currentConversation (handleSendMessage_reply snap now (Some []) s')) =
       messages (currentConversation snap) @
       [\<lparr> role = User, content = input snap \<rparr>,
        \<lparr> role = Assistant, content = ''No response from AI'' \<rparr>]
   \<and> (trim (input s) \<noteq> [] \<and> model (currentConversation s) \<noteq> [] \<longrightarrow>
        handleSendMessage sent settled (\<lambda>req. Resolved (Some [])) s =
          (updateConversationTitle s
             (messages (currentConversation s) @
              [\<lparr> role = User, content = input s \<rparr>,
               \<lparr> role = Assistant, content = ''No response from AI'' \<rparr>])
             (handleSendMessage_reply s settled (Some []) (fst (handleSendMessage_begin sent s))))
          \<lparr> isLoading := False \<rparr>
        \<and> messages (currentConversation (handleSendMessage sent settled (\<lambda>req. Resolved (Some [])) s)) =
            (if title (currentConversation s) = ''New Conversation'' \<and> messages (currentConversation s) = []
             then []
             else messages (currentConversation s) @
                  [\<lparr> role = User, content = input s \<rparr>,
                   \<lparr> role = Assistant, content = ''No response from AI'' \<rparr>])
        \<and> handleSendMessage sent settled (\<lambda>req. Resolved (Some [])) s =
            handleSendMessage sent settled (\<lambda>req. Resolved None) s)"
proof -
  have fallback: "aiResponse (Some []) = ''No response from AI''" "aiResponse None = ''No response from AI''"
    by (simp_all add: aiResponse_def)
  have minimal: "messages_min (handleSendMessage_min (\<lambda>req. Resolved (Some [])) m) =
          messages_min m @
          [\<lparr> role = User, content = input_min m \<rparr>,
           \<lparr> role = Assistant, content = ''No response from AI'' \<rparr>]"
    if "trim (input_min m) \<noteq> [] \<and> selectedModel m \<noteq> []"
    using that by (simp add: send_min_appends fallback)
  have reply: "messages (currentConversation (handleSendMessage_reply snap now (Some []) s')) =
       messages (currentConversation snap) @
       [\<lparr> role = User, content = input snap \<rparr>,
        \<lparr> role = Assistant, content = ''No response from AI'' \<rparr>]"
    by (simp add: reply_appends fallback)
  have whole: "handleSendMessage sent settled (\<lambda>req. Resolved (Some [])) s =
          (updateConversationTitle s
             (messages (currentConversation s) @
              [\<lparr> role = User, content = input s \<rparr>,
               \<lparr> role = Assistant, content = ''No response from AI'' \<rparr>])
             (handleSendMessage_reply s settled (Some []) (fst (handleSendMessage_begin sent s))))
          \<lparr> isLoading := False \<rparr>"
    if "trim (input s) \<noteq> [] \<and> model (currentConversation s) \<noteq> []"
    using that by (simp add: handleSendMessage_sends finish_is_reply_then_retitle fallback)
  have final: "messages (currentConversation (handleSendMessage sent settled (\<lambda>req. Resolved (Some [])) s)) =
            (if title (currentConversation s) = ''New Conversation'' \<and> messages (currentConversation s) = []
             then []
             else messages (currentConversation s) @
                  [\<lparr> role = User, content = input s \<rparr>,
                   \<lparr> role = Assistant, content = ''No response from AI'' \<rparr>])"
    if g: "trim (input s) \<noteq> [] \<and> model (currentConversation s) \<noteq> []"
  proof (cases "title (currentConversation s) = ''New Conversation'' \<and> messages (currentConversation s) = []")
    case True
    with g show ?thesis
      using send_resolved_first_exchange [of s sent settled "Some []"] by simp
  next
    case False
    with g show ?thesis
      using send_resolved_appends [of s sent settled "Some []"] by (simp add: fallback)
  qed
  have same: "handleSendMessage sent settled (\<lambda>req. Resolved (Some [])) s =
            handleSendMessage sent settled (\<lambda>req. Resolved None) s"
    if "trim (input s) \<noteq> [] \<and> model (currentConversation s) \<noteq> []"
    using that by (simp add: handleSendMessage_sends handleSendMessage_finish_def fallback)
  from fallback minimal reply whole final same show ?thesis
    by simp
qed

theorem C10_empty_content_witness:
  "messages_min (handleSendMessage_min (\<lambda>req. Resolved (Some []))
     \<lparr> messages_min = [], input_min = ''hi'', isLoading_min = False, models_min = [''m''],
       selectedModel = ''m'' \<rparr>)
     = [\<lparr> role = User, content = ''hi'' \<rparr>,
        \<lparr> role = Assistant, content = ''No response from AI'' \<rparr>]
   \<and> messages (currentConversation
        (handleSendMessage 5 6 (\<lambda>req. Resolved (Some []))
           (setInput ''first'' (handleModelChange ''m''
              (startNewChat ''0.xyz'' 2 (initial_state ''0.abc'' 1))))))
     = []
   \<and> messages (currentConversation
        (handleSendMessage 8 9 (\<lambda>req. Resolved (Some []))
           (setInput ''second'' (handleSendMessage 5 6 (\<lambda>req. Rejected)
              (setInput ''first'' (handleModelChange ''m''
                 (startNewChat ''0.xyz'' 2 (initial_state ''0.abc'' 1))))))))
     = [\<lparr> role = User, content = ''first'' \<rparr>,
        \<lparr> role = Assistant, content = ''Sorry, there was an error processing your request.'' \<rparr>,
        \<lparr> role = User, content = ''second'' \<rparr>,
        \<lparr> role = Assistant, content = ''No response from AI'' \<rparr>]"
  using C10_empty_content_falls_back
          [where m = "\<lparr> messages_min = [], input_min = ''hi'', isLoading_min = False,
                        models_min = [''m''], selectedModel = ''m'' \<rparr>"
             and s = "setInput ''first'' (handleModelChange ''m''
                         (startNewChat ''0.xyz'' 2 (initial_state ''0.abc'' 1)))"
             and sent = 5 and settled = 6]
        C10_empty_content_falls_back
          [where m = "\<lparr> messages_min = [], input_min = ''hi'', isLoading_min = False,
                        models_min = [''m''], selectedModel = ''m'' \<rparr>"
             and s = "setInput ''second'' (handleSendMessage 5 6 (\<lambda>req. Rejected)
                        (setInput ''first'' (handleModelChange ''m''
                           (startNewChat ''0.xyz'' 2 (initial_state ''0.abc'' 1)))))"
             and sent = 8 and settled = 9]
  by (simp add: run_defs)

end
